theory Spec2Isabelle
  imports Complex_Main
begin

section \<open>Values shared by the consultation model\<close>

text \<open>
  Actors are opaque references (primary keys of the user table). A date is a day number,
  a time of day a count of microseconds since midnight, and an aware datetime an instant
  in microseconds since the epoch. Every method call reads the clock once: the instant
  \<open>now\<close> is an argument of each operation.
\<close>

type_synonym user = nat
type_synonym date = int
type_synonym time_of_day = nat
type_synonym datetime = int

text \<open>The nine values of \<open>STATUS_CHOICES\<close>.\<close>

datatype status =
    Scheduled
  | Patient_checked_in
  | Ready_for_consultation
  | In_progress
  | Completed
  | Cancelled
  | No_show
  | Rescheduled
  | Overdue

text \<open>The exceptions the modelled code raises or lets through.\<close>

datatype exn =
    ValidationError string
  | ValueError
  | IndexError
  | IntegrityError
  | OverflowError
  | AttributeError
  | TypeError

section \<open>Python built-ins used by the identifier generators\<close>

text \<open>
  Strings are lists of code points below 256. \<open>py_int\<close> is \<open>int(s)\<close> for base 10:
  optional surrounding whitespace, an optional sign, then digits in which single
  underscores may stand between two digits; anything else is a \<open>ValueError\<close>.
\<close>

definition int_space :: "char \<Rightarrow> bool" where
  "int_space c = (of_char c \<in> set [9, 10, 11, 12, 13, 32, 133, 160 :: nat])"

definition is_digit :: "char \<Rightarrow> bool" where
  "is_digit c = (48 \<le> (of_char c :: nat) \<and> (of_char c :: nat) \<le> 57)"

definition digit_value :: "char \<Rightarrow> nat" where
  "digit_value c = of_char c - 48"

fun digits_val :: "string \<Rightarrow> nat \<Rightarrow> bool \<Rightarrow> nat option" where
  "digits_val [] acc prev = (if prev then Some acc else None)"
| "digits_val (c # cs) acc prev =
     (if is_digit c then digits_val cs (acc * 10 + digit_value c) True
      else if c = CHR ''_'' \<and> prev then digits_val cs acc False
      else None)"

definition py_int :: "string \<Rightarrow> exn + int" where
  "py_int s =
     (let s1 = dropWhile int_space s;
          (sign, s2) = (case s1 of
                          c # r \<Rightarrow> (if c = CHR ''+'' then (1, r)
                                    else if c = CHR ''-'' then (- 1, r)
                                    else (1, s1))
                        | [] \<Rightarrow> (1 :: int, s1));
          s3 = rev (dropWhile int_space (rev s2))
      in case digits_val s3 0 False of
           None \<Rightarrow> Inl ValueError
         | Some n \<Rightarrow> Inr (sign * int n))"

definition startswith :: "string \<Rightarrow> string \<Rightarrow> bool" where
  "startswith s p = (take (length p) s = p)"

definition digit_char :: "nat \<Rightarrow> char" where
  "digit_char d = char_of (48 + d)"

function show_nat :: "nat \<Rightarrow> string" where
  "show_nat n = (if n < 10 then [digit_char n] else show_nat (n div 10) @ [digit_char (n mod 10)])"
  by pat_completeness auto
termination
  by (relation "measure (\<lambda>n. n)") auto

text \<open>The format specification \<open>0wd\<close>: zero padding to width \<open>w\<close>, the sign counted in.\<close>

definition format_0d :: "nat \<Rightarrow> int \<Rightarrow> string" where
  "format_0d w n =
     (let ds = show_nat (nat \<bar>n\<bar>)
      in if n < 0 then CHR ''-'' # replicate (w - 1 - length ds) (CHR ''0'') @ ds
         else replicate (w - length ds) (CHR ''0'') @ ds)"

text \<open>Ordering of a text column: code point by code point, a proper prefix first.\<close>

fun str_le :: "string \<Rightarrow> string \<Rightarrow> bool" where
  "str_le [] ys = True"
| "str_le (x # xs) [] = False"
| "str_le (x # xs) (y # ys) =
     ((of_char x :: nat) < of_char y \<or> (x = y \<and> str_le xs ys))"

section \<open>The consultation and its tables\<close>

text \<open>
  The columns the modelled methods read or write. A nullable column is an option; the
  primary key is the empty string until \<open>save\<close> has generated it.
\<close>

record consultation =
  id_pk :: string
  patient :: user
  doctor :: user
  scheduled_date :: date
  scheduled_time :: time_of_day
  duration :: nat
  status :: status
  actual_start_time :: "datetime option"
  actual_end_time :: "datetime option"
  checked_in_at :: "datetime option"
  checked_in_by :: "user option"
  ready_for_consultation_at :: "datetime option"
  ready_marked_by :: "user option"
  cancelled_by :: "user option"
  cancellation_reason :: string
  cancelled_at :: "datetime option"
  reschedule_requested :: bool
  reschedule_requested_at :: "datetime option"
  reschedule_requested_by :: "user option"
  reschedule_reason :: string
  reschedule_approved :: bool
  reschedule_approved_by :: "user option"
  reschedule_approved_at :: "datetime option"
  rescheduled_at :: "datetime option"
  created_at :: "datetime option"
  updated_at :: "datetime option"

text \<open>
  A row of the reschedule history. Its \<open>requested_by\<close> is declared without
  \<open>null=True\<close>, so the column holds a user, never null.
\<close>

record consultation_reschedule =
  consultation_ref :: string
  old_date :: date
  old_time :: time_of_day
  new_date :: date
  new_time :: time_of_day
  reason :: string
  requested_by :: user
  history_created_at :: datetime

record db =
  consultations :: "consultation list"
  reschedule_history :: "consultation_reschedule list"

section \<open>Saving a consultation\<close>

text \<open>\<open>order_by('id').last()\<close>: the row with the greatest primary key, if any.\<close>

fun last_by_id :: "consultation list \<Rightarrow> consultation option" where
  "last_by_id [] = None"
| "last_by_id (r # rs) =
     (case last_by_id rs of
        None \<Rightarrow> Some r
      | Some m \<Rightarrow> if str_le (id_pk m) (id_pk r) then Some r else Some m)"

text \<open>The body of the \<open>try\<close> block in \<open>Consultation.save\<close>, up to \<open>last_number\<close>.\<close>

definition consultation_last_number :: "consultation list \<Rightarrow> consultation \<Rightarrow> exn + int" where
  "consultation_last_number rows last_consultation =
     (if startswith (id_pk last_consultation) ''CON''
      then py_int (drop 3 (id_pk last_consultation))
      else (case last_by_id (filter (\<lambda>r. startswith (id_pk r) ''CON'') rows) of
              Some last_con \<Rightarrow> py_int (drop 3 (id_pk last_con))
            | None \<Rightarrow> Inr 0))"

definition consultation_new_number :: "consultation list \<Rightarrow> exn + int" where
  "consultation_new_number rows =
     (case last_by_id rows of
        Some last_consultation \<Rightarrow>
          (case consultation_last_number rows last_consultation of
             Inr last_number \<Rightarrow> Inr (last_number + 1)
           | Inl ValueError \<Rightarrow> Inr 1
           | Inl IndexError \<Rightarrow> Inr 1
           | Inl e \<Rightarrow> Inl e)
      | None \<Rightarrow> Inr 1)"

definition generate_consultation_id :: "consultation list \<Rightarrow> exn + string" where
  "generate_consultation_id rows =
     (case consultation_new_number rows of
        Inl e \<Rightarrow> Inl e
      | Inr new_number \<Rightarrow> Inr (''CON'' @ format_0d 3 new_number))"

text \<open>
  \<open>super().save()\<close> with the primary key set: an UPDATE of the row with this key,
  writing every column of the object, and an INSERT when no row has the key. Every save
  stamps \<open>updated_at\<close> on the object; \<open>created_at\<close> is stamped by the INSERT only. So the
  UPDATE on behalf of an object that was never inserted writes a null \<open>created_at\<close> into
  a column that is not nullable and is refused: a new object cannot take a key in use.
  The result carries the object and the tables as the call leaves them, also when it
  raises.
\<close>

definition row_exists :: "string \<Rightarrow> consultation list \<Rightarrow> bool" where
  "row_exists k rows = (k \<in> set (map id_pk rows))"

definition model_save ::
  "datetime \<Rightarrow> consultation \<Rightarrow> db \<Rightarrow> (exn + unit) \<times> consultation \<times> db" where
  "model_save now c d =
     (if row_exists (id_pk c) (consultations d)
      then (let c' = c\<lparr>updated_at := Some now\<rparr>
            in if created_at c' = None then (Inl IntegrityError, c', d)
               else (Inr (), c', d\<lparr>consultations :=
                       map (\<lambda>r. if id_pk r = id_pk c then c' else r) (consultations d)\<rparr>))
      else (let c' = c\<lparr>created_at := Some now, updated_at := Some now\<rparr>
            in (Inr (), c', d\<lparr>consultations := consultations d @ [c']\<rparr>)))"

text \<open>\<open>Consultation.save\<close>: the identifier is generated when the object has none.\<close>

definition save ::
  "datetime \<Rightarrow> consultation \<Rightarrow> db \<Rightarrow> (exn + unit) \<times> consultation \<times> db" where
  "save now c d =
     (if id_pk c = []
      then (case generate_consultation_id (consultations d) of
              Inl e \<Rightarrow> (Inl e, c, d)
            | Inr new_id \<Rightarrow> model_save now (c\<lparr>id_pk := new_id\<rparr>) d)
      else model_save now c d)"

text \<open>
  A consultation that has been saved before: it has its key, the table holds a row
  under that key, and its \<open>created_at\<close> is set.
\<close>

definition stored :: "consultation \<Rightarrow> db \<Rightarrow> bool" where
  "stored c d = (id_pk c \<noteq> [] \<and> row_exists (id_pk c) (consultations d) \<and> created_at c \<noteq> None)"

section \<open>Derived properties\<close>

text \<open>
  \<open>scheduled_datetime\<close> combines date and time into a naive datetime and makes it aware
  in the current time zone; \<open>tz\<close> gives the zone's offset from UTC at a local time.
\<close>

definition combine :: "date \<Rightarrow> time_of_day \<Rightarrow> int" where
  "combine d t = d * 86400000000 + int t"

definition make_aware :: "(int \<Rightarrow> int) \<Rightarrow> int \<Rightarrow> datetime" where
  "make_aware tz local = local - tz local"

definition scheduled_datetime :: "(int \<Rightarrow> int) \<Rightarrow> consultation \<Rightarrow> datetime" where
  "scheduled_datetime tz c = make_aware tz (combine (scheduled_date c) (scheduled_time c))"

definition hours :: "int \<Rightarrow> int" where
  "hours n = n * 3600000000"

definition minutes :: "int \<Rightarrow> int" where
  "minutes n = n * 60000000"

definition is_upcoming :: "(int \<Rightarrow> int) \<Rightarrow> datetime \<Rightarrow> consultation \<Rightarrow> bool" where
  "is_upcoming tz now c = (scheduled_datetime tz c > now \<and> status c = Scheduled)"

definition is_overdue :: "(int \<Rightarrow> int) \<Rightarrow> datetime \<Rightarrow> consultation \<Rightarrow> bool" where
  "is_overdue tz now c =
     (if status c \<in> set [Completed, Cancelled, Rescheduled] then False
      else scheduled_datetime tz c < now)"

definition is_eligible_for_reschedule :: "(int \<Rightarrow> int) \<Rightarrow> datetime \<Rightarrow> consultation \<Rightarrow> bool" where
  "is_eligible_for_reschedule tz now c =
     (if status c \<in> set [Completed, Cancelled] then False
      else (let grace_period = now - hours 1
            in scheduled_datetime tz c < grace_period))"


definition is_ready_for_consultation :: "consultation \<Rightarrow> bool" where
  "is_ready_for_consultation c =
     (status c \<in> set [Ready_for_consultation, In_progress, Completed])"

section \<open>Boolean-returning transitions\<close>

text \<open>
  Each method returns what the source returns, beside the object and the tables as they
  are afterwards. An exception raised by \<open>save\<close> leaves the method: it is the \<open>Inl\<close>
  result, and the object keeps what was assigned to it before the save.
\<close>

definition check_in_patient ::
  "datetime \<Rightarrow> user \<Rightarrow> consultation \<Rightarrow> db \<Rightarrow> (exn + bool) \<times> consultation \<times> db" where
  "check_in_patient now by c d =
     (if status c = Scheduled
      then (let c1 = c\<lparr>status := Patient_checked_in,
                        checked_in_at := Some now,
                        checked_in_by := Some by\<rparr>
            in case save now c1 d of
                 (Inl e, c2, d2) \<Rightarrow> (Inl e, c2, d2)
               | (Inr ok, c2, d2) \<Rightarrow> (Inr True, c2, d2))
      else (Inr False, c, d))"

definition mark_ready_for_consultation ::
  "datetime \<Rightarrow> user \<Rightarrow> consultation \<Rightarrow> db \<Rightarrow> (exn + bool) \<times> consultation \<times> db" where
  "mark_ready_for_consultation now by c d =
     (if status c \<in> set [Scheduled, Patient_checked_in]
      then (let c1 = c\<lparr>status := Ready_for_consultation,
                        ready_for_consultation_at := Some now,
                        ready_marked_by := Some by\<rparr>
            in case save now c1 d of
                 (Inl e, c2, d2) \<Rightarrow> (Inl e, c2, d2)
               | (Inr ok, c2, d2) \<Rightarrow> (Inr True, c2, d2))
      else (Inr False, c, d))"

definition start_consultation ::
  "datetime \<Rightarrow> consultation \<Rightarrow> db \<Rightarrow> (exn + bool) \<times> consultation \<times> db" where
  "start_consultation now c d =
     (if status c \<in> set [Ready_for_consultation, Patient_checked_in]
      then (let c1 = c\<lparr>status := In_progress, actual_start_time := Some now\<rparr>
            in case save now c1 d of
                 (Inl e, c2, d2) \<Rightarrow> (Inl e, c2, d2)
               | (Inr ok, c2, d2) \<Rightarrow> (Inr True, c2, d2))
      else (Inr False, c, d))"

section \<open>The reschedule workflow\<close>

definition request_reschedule ::
  "(int \<Rightarrow> int) \<Rightarrow> datetime \<Rightarrow> user \<Rightarrow> string \<Rightarrow> consultation \<Rightarrow> db
     \<Rightarrow> (exn + bool) \<times> consultation \<times> db" where
  "request_reschedule tz now by why c d =
     (if \<not> is_eligible_for_reschedule tz now c
      then (Inl (ValidationError ''This consultation is not eligible for reschedule''), c, d)
      else (let c1 = c\<lparr>reschedule_requested := True,
                        reschedule_requested_at := Some now,
                        reschedule_requested_by := Some by,
                        reschedule_reason := why,
                        status := Overdue\<rparr>
            in case save now c1 d of
                 (Inl e, c2, d2) \<Rightarrow> (Inl e, c2, d2)
               | (Inr ok, c2, d2) \<Rightarrow> (Inr True, c2, d2)))"

definition approve_reschedule ::
  "datetime \<Rightarrow> user \<Rightarrow> consultation \<Rightarrow> db \<Rightarrow> (exn + bool) \<times> consultation \<times> db" where
  "approve_reschedule now by c d =
     (if \<not> reschedule_requested c
      then (Inl (ValidationError ''No reschedule request to approve''), c, d)
      else (let c1 = c\<lparr>reschedule_approved := True,
                        reschedule_approved_by := Some by,
                        reschedule_approved_at := Some now\<rparr>
            in case save now c1 d of
                 (Inl e, c2, d2) \<Rightarrow> (Inl e, c2, d2)
               | (Inr ok, c2, d2) \<Rightarrow> (Inr True, c2, d2)))"

text \<open>
  \<open>ConsultationReschedule.objects.create\<close>: the insert of a history row. The requesting
  actor comes from a nullable column of the consultation and goes into a column that is
  not nullable, so a null actor is refused with an \<open>IntegrityError\<close>.
\<close>

definition create_reschedule ::
  "datetime \<Rightarrow> consultation \<Rightarrow> date \<Rightarrow> time_of_day \<Rightarrow> date \<Rightarrow> time_of_day \<Rightarrow> string
     \<Rightarrow> user option \<Rightarrow> db \<Rightarrow> exn + db" where
  "create_reschedule now c od ot nd nt why by d =
     (case by of
        None \<Rightarrow> Inl IntegrityError
      | Some u \<Rightarrow>
          Inr (d\<lparr>reschedule_history := reschedule_history d @
                 [\<lparr>consultation_ref = id_pk c, old_date = od, old_time = ot,
                   new_date = nd, new_time = nt, reason = why, requested_by = u,
                   history_created_at = now\<rparr>]\<rparr>))"

definition apply_reschedule ::
  "datetime \<Rightarrow> date \<Rightarrow> time_of_day \<Rightarrow> string \<Rightarrow> consultation \<Rightarrow> db
     \<Rightarrow> (exn + bool) \<times> consultation \<times> db" where
  "apply_reschedule now nd nt why c d =
     (if \<not> reschedule_approved c
      then (Inl (ValidationError ''Reschedule must be approved before applying''), c, d)
      else (let od = scheduled_date c;
                ot = scheduled_time c;
                c1 = c\<lparr>scheduled_date := nd,
                        scheduled_time := nt,
                        status := Rescheduled,
                        reschedule_requested := False,
                        reschedule_approved := False,
                        reschedule_requested_at := None,
                        reschedule_approved_at := None,
                        rescheduled_at := Some now,
                        reschedule_reason := []\<rparr>
            in case save now c1 d of
                 (Inl e, c2, d2) \<Rightarrow> (Inl e, c2, d2)
               | (Inr ok, c2, d2) \<Rightarrow>
                   (case create_reschedule now c2 od ot nd nt why
                           (reschedule_requested_by c2) d2 of
                      Inl e \<Rightarrow> (Inl e, c2, d2)
                    | Inr d3 \<Rightarrow> (Inr True, c2, d3))))"

section \<open>Sample data\<close>

text \<open>A consultation booked for day 20000 at 10:00, and tables that hold only this row.\<close>

definition sample_consultation :: consultation where
  "sample_consultation =
     \<lparr>id_pk = ''CON007'', patient = 11, doctor = 21, scheduled_date = 20000,
      scheduled_time = 36000000000, duration = 30, status = Scheduled,
      actual_start_time = None, actual_end_time = None,
      checked_in_at = None, checked_in_by = None,
      ready_for_consultation_at = None, ready_marked_by = None,
      cancelled_by = None, cancellation_reason = [], cancelled_at = None,
      reschedule_requested = False, reschedule_requested_at = None,
      reschedule_requested_by = None, reschedule_reason = [],
      reschedule_approved = False, reschedule_approved_by = None,
      reschedule_approved_at = None, rescheduled_at = None,
      created_at = Some 1700000000000000, updated_at = Some 1700000000000000\<rparr>"

definition sample_db :: db where
  "sample_db = \<lparr>consultations = [sample_consultation], reschedule_history = []\<rparr>"

definition utc :: "int \<Rightarrow> int" where
  "utc local = 0"

text \<open>The instant at which the sample consultation is scheduled, read in UTC.\<close>

definition sample_start :: datetime where
  "sample_start = 1728036000000000"

text \<open>
  The sample consultation after a request by user 11 and an approval by user 21, and the
  same consultation once the requesting user has been deleted (\<open>SET_NULL\<close>).
\<close>

definition approved_consultation :: consultation where
  "approved_consultation =
     sample_consultation\<lparr>status := Overdue,
       reschedule_requested := True,
       reschedule_requested_at := Some (sample_start + hours 2),
       reschedule_requested_by := Some 11,
       reschedule_reason := ''missed the call'',
       reschedule_approved := True,
       reschedule_approved_by := Some 21,
       reschedule_approved_at := Some (sample_start + hours 3)\<rparr>"

definition orphaned_consultation :: consultation where
  "orphaned_consultation = approved_consultation\<lparr>reschedule_requested_by := None\<rparr>"

text \<open>
  A new consultation that has not been saved yet, and a table in which \<open>CON999\<close> and
  \<open>CON1000\<close> are both in use.
\<close>

definition unsaved_consultation :: consultation where
  "unsaved_consultation =
     sample_consultation\<lparr>id_pk := [], created_at := None, updated_at := None\<rparr>"

definition crowded_db :: db where
  "crowded_db =
     \<lparr>consultations = [sample_consultation\<lparr>id_pk := ''CON999''\<rparr>,
                        sample_consultation\<lparr>id_pk := ''CON1000''\<rparr>],
      reschedule_history = []\<rparr>"

section \<open>Receipts\<close>

text \<open>
  The columns of a receipt; \<open>receipt_amount\<close> is the amount in hundredths. The table
  is kept in the order of the automatic primary key, so \<open>order_by('id').last()\<close> is its
  last row.
\<close>

record receipt =
  receipt_consultation :: string
  receipt_number :: string
  receipt_amount :: int
  payment_method :: string
  payment_status :: string
  issued_by :: user
  issued_at :: "datetime option"
  receipt_updated_at :: "datetime option"

definition last_receipt :: "receipt list \<Rightarrow> receipt option" where
  "last_receipt rows = (if rows = [] then None else Some (last rows))"

text \<open>\<open>ConsultationReceipt.save\<close> parses the stored number outside any \<open>try\<close> block.\<close>

definition receipt_new_number :: "receipt list \<Rightarrow> exn + int" where
  "receipt_new_number rows =
     (case last_receipt rows of
        Some last_r \<Rightarrow>
          (case py_int (drop 3 (receipt_number last_r)) of
             Inl e \<Rightarrow> Inl e
           | Inr last_number \<Rightarrow> Inr (last_number + 1))
      | None \<Rightarrow> Inr 1)"

definition generate_receipt_number :: "receipt list \<Rightarrow> exn + string" where
  "generate_receipt_number rows =
     (case receipt_new_number rows of
        Inl e \<Rightarrow> Inl e
      | Inr new_number \<Rightarrow> Inr (''RCP'' @ format_0d 6 new_number))"

text \<open>
  The first save of a receipt: the number is generated when it is empty, then the row is
  inserted; the insert is refused when the number or the consultation is already taken
  (both columns are unique).
\<close>

definition receipt_insert :: "datetime \<Rightarrow> receipt \<Rightarrow> receipt list \<Rightarrow> exn + (receipt \<times> receipt list)" where
  "receipt_insert now r rows =
     (if receipt_number r \<in> set (map receipt_number rows)
         \<or> receipt_consultation r \<in> set (map receipt_consultation rows)
      then Inl IntegrityError
      else (let r' = r\<lparr>issued_at := Some now, receipt_updated_at := Some now\<rparr>
            in Inr (r', rows @ [r'])))"

definition receipt_save :: "datetime \<Rightarrow> receipt \<Rightarrow> receipt list \<Rightarrow> exn + (receipt \<times> receipt list)" where
  "receipt_save now r rows =
     (if receipt_number r = []
      then (case generate_receipt_number rows of
              Inl e \<Rightarrow> Inl e
            | Inr n \<Rightarrow> receipt_insert now (r\<lparr>receipt_number := n\<rparr>) rows)
      else receipt_insert now r rows)"

section \<open>Cancellation\<close>

text \<open>
  Modelled from the spec: the \<open>cancel(actor, reason)\<close> operation of the state machine.
  The repository's model class declares the three cancellation columns and no method
  that writes them. The spec's transition table gives the row "any non-terminal,
  cancel(actor, reason), cancelled, set cancelled_by, cancellation_reason,
  cancelled_at=now", says that a failed guard leaves the state unchanged and signals a
  no-op, and names cancellation and no-show as terminal statuses; \<open>completed\<close> has no
  transition leaving it.
\<close>

definition terminal :: "status \<Rightarrow> bool" where
  "terminal s = (s \<in> set [Completed, Cancelled, No_show])"

definition cancel :: "datetime \<Rightarrow> user \<Rightarrow> string \<Rightarrow> consultation \<Rightarrow> bool \<times> consultation" where
  "cancel now actor why c =
     (if terminal (status c) then (False, c)
      else (True, c\<lparr>status := Cancelled,
                     cancelled_by := Some actor,
                     cancellation_reason := why,
                     cancelled_at := Some now\<rparr>))"

section \<open>More sample data\<close>

definition foreign_receipt :: receipt where
  "foreign_receipt =
     \<lparr>receipt_consultation = ''CON007'', receipt_number = ''INV-2024-0001'',
      receipt_amount = 50000, payment_method = ''upi'', payment_status = ''paid'',
      issued_by = 21, issued_at = Some 1700000000000000,
      receipt_updated_at = Some 1700000000000000\<rparr>"

definition new_receipt :: receipt where
  "new_receipt =
     \<lparr>receipt_consultation = ''CON008'', receipt_number = [],
      receipt_amount = 75000, payment_method = ''card'', payment_status = ''paid'',
      issued_by = 21, issued_at = None, receipt_updated_at = None\<rparr>"

section \<open>Amounts\<close>

text \<open>
  A Python float is a binary64 number: a finite one is an integer significand times a
  power of two, \<open>Finite m x\<close> standing for \<open>m * 2 ^ x\<close>. Every operation returns the
  exact result rounded to the nearest such number, ties to the even significand, and
  overflows to an infinity.
\<close>

datatype double = Finite int int | Infinity

function bit_length :: "nat \<Rightarrow> nat" where
  "bit_length n = (if n = 0 then 0 else Suc (bit_length (n div 2)))"
  by pat_completeness auto
termination
  by (relation "measure (\<lambda>n. n)") auto

text \<open>For \<open>a > 0\<close> and \<open>d > 0\<close>, the exponent \<open>e\<close> with \<open>2 ^ e \<le> a / d < 2 ^ (e + 1)\<close>.\<close>

definition floor_log2 :: "int \<Rightarrow> int \<Rightarrow> int" where
  "floor_log2 a d =
     (let e0 = int (bit_length (nat a)) - int (bit_length (nat d))
      in if (if 0 \<le> e0 then d * 2 ^ nat e0 \<le> a else d \<le> a * 2 ^ nat (- e0))
         then e0 else e0 - 1)"

text \<open>The quotient \<open>num / den\<close> rounded to an integer, a tie going to the even one.\<close>

definition div_half_even :: "int \<Rightarrow> int \<Rightarrow> int" where
  "div_half_even num den =
     (let q = num div den; r = num mod den
      in if 2 * r < den then q
         else if den < 2 * r then q + 1
         else if even q then q else q + 1)"

text \<open>
  The binary64 number nearest to \<open>n / d\<close>, for \<open>d > 0\<close>: 53 significant bits, the
  exponent of the last place not below \<open>- 1074\<close>.
\<close>

definition round_to_double :: "int \<Rightarrow> int \<Rightarrow> double" where
  "round_to_double n d =
     (if n = 0 then Finite 0 0
      else (let a = \<bar>n\<bar>;
                x = max (floor_log2 a d) (- 1022) - 52;
                m = (if 0 \<le> x then div_half_even a (d * 2 ^ nat x)
                     else div_half_even (a * 2 ^ nat (- x)) d)
            in if 0 \<le> x then (if 2 ^ 1024 \<le> m * 2 ^ nat x then Infinity
                               else Finite (sgn n * m) x)
               else Finite (sgn n * m) x))"

text \<open>\<open>float(amount)\<close> for an amount written as the decimal \<open>c * 10 ^ e\<close>.\<close>

definition float_of_decimal :: "int \<Rightarrow> int \<Rightarrow> double" where
  "float_of_decimal c e =
     (if 0 \<le> e then round_to_double (c * 10 ^ nat e) 1
      else round_to_double c (10 ^ nat (- e)))"

text \<open>The product of a float and an integer that is itself a float, such as 100.\<close>

definition float_times :: "double \<Rightarrow> int \<Rightarrow> double" where
  "float_times f k =
     (case f of
        Infinity \<Rightarrow> Infinity
      | Finite m x \<Rightarrow>
          (if 0 \<le> x then round_to_double (m * k * 2 ^ nat x) 1
           else round_to_double (m * k) (2 ^ nat (- x))))"

text \<open>\<open>int(f)\<close>: the fraction is cut off, towards zero; an infinity raises.\<close>

definition int_of_float :: "double \<Rightarrow> exn + int" where
  "int_of_float f =
     (case f of
        Infinity \<Rightarrow> Inl OverflowError
      | Finite m x \<Rightarrow>
          Inr (if 0 \<le> x then m * 2 ^ nat x
               else sgn m * (\<bar>m\<bar> div 2 ^ nat (- x))))"

text \<open>\<open>int(float(amount) * 100)\<close> in \<open>initiate_payment\<close>.\<close>

definition amount_in_paise :: "int \<Rightarrow> int \<Rightarrow> exn + int" where
  "amount_in_paise c e = int_of_float (float_times (float_of_decimal c e) 100)"

text \<open>
  What the spec asks for, in its words: \<open>round(amount * 100)\<close> as an integer, computed
  on the decimal value without loss of precision.
\<close>

definition spec_minor_units :: "int \<Rightarrow> int \<Rightarrow> int" where
  "spec_minor_units c e =
     (if 0 \<le> e + 2 then c * 10 ^ nat (e + 2)
      else sgn c * div_half_even \<bar>c\<bar> (10 ^ nat (- (e + 2))))"

section \<open>Bytes, digests and encodings\<close>

text \<open>
  A byte is a \<open>char\<close>. \<open>encode_utf8\<close> is \<open>str.encode()\<close> on code points below 256,
  \<open>hexdigest_of\<close> renders digest bytes as \<open>hexdigest()\<close> does, and \<open>b64encode\<close> is the
  standard alphabet with padding. The SHA-256 function itself belongs to \<open>hashlib\<close>:
  it is the argument \<open>sha256\<close> of everything that hashes.
\<close>

type_synonym bytes = "char list"

definition encode_utf8 :: "string \<Rightarrow> bytes" where
  "encode_utf8 s =
     concat (map (\<lambda>c. if (of_char c :: nat) < 128 then [c]
                       else [char_of (192 + (of_char c :: nat) div 64),
                             char_of (128 + (of_char c :: nat) mod 64)]) s)"

definition hex_digit :: "nat \<Rightarrow> char" where
  "hex_digit n = (if n < 10 then char_of (48 + n) else char_of (87 + n))"

definition hex_byte :: "char \<Rightarrow> string" where
  "hex_byte b = [hex_digit ((of_char b :: nat) div 16), hex_digit ((of_char b :: nat) mod 16)]"

definition hexdigest_of :: "bytes \<Rightarrow> string" where
  "hexdigest_of bs = concat (map hex_byte bs)"

definition b64_alphabet :: string where
  "b64_alphabet = ''ABCDEFGHIJKLMNOPQRSTUVWXYZabcdefghijklmnopqrstuvwxyz0123456789+/''"

definition b64_char :: "nat \<Rightarrow> char" where
  "b64_char n = b64_alphabet ! (n mod 64)"

fun b64encode :: "bytes \<Rightarrow> string" where
  "b64encode [] = []"
| "b64encode [a] =
     (let x = (of_char a :: nat)
      in [b64_char (x div 4), b64_char (x mod 4 * 16), CHR ''='', CHR ''=''])"
| "b64encode [a, b] =
     (let x = (of_char a :: nat); y = (of_char b :: nat)
      in [b64_char (x div 4), b64_char (x mod 4 * 16 + y div 16),
          b64_char (y mod 16 * 4), CHR ''=''])"
| "b64encode (a # b # c # rest) =
     (let x = (of_char a :: nat); y = (of_char b :: nat); z = (of_char c :: nat)
      in [b64_char (x div 4), b64_char (x mod 4 * 16 + y div 16),
          b64_char (y mod 16 * 4 + z div 64), b64_char (z mod 64)] @ b64encode rest)"

section \<open>JSON values\<close>

text \<open>
  The values a payload is built from. A dictionary keeps its insertion order.
  \<open>json_dumps\<close> is \<open>json.dumps\<close> with \<open>separators=(',', ':')\<close> and the default
  \<open>ensure_ascii\<close>: nothing stands between the tokens.
\<close>

datatype json =
    JNull
  | JBool bool
  | JInt int
  | JStr string
  | JList "json list"
  | JObj "(string \<times> json) list"

definition hex4 :: "nat \<Rightarrow> string" where
  "hex4 n = [hex_digit (n div 4096 mod 16), hex_digit (n div 256 mod 16),
             hex_digit (n div 16 mod 16), hex_digit (n mod 16)]"

definition json_escape :: "char \<Rightarrow> string" where
  "json_escape c =
     (let n = (of_char c :: nat)
      in if n = 34 then [CHR 0x5C, CHR 0x22]
         else if n = 92 then [CHR 0x5C, CHR 0x5C]
         else if n = 10 then [CHR 0x5C, CHR ''n'']
         else if n = 13 then [CHR 0x5C, CHR ''r'']
         else if n = 9 then [CHR 0x5C, CHR ''t'']
         else if n = 8 then [CHR 0x5C, CHR ''b'']
         else if n = 12 then [CHR 0x5C, CHR ''f'']
         else if n < 32 \<or> 126 < n then [CHR 0x5C, CHR ''u''] @ hex4 n
         else [c])"

definition json_string :: "string \<Rightarrow> string" where
  "json_string s = [CHR 0x22] @ concat (map json_escape s) @ [CHR 0x22]"

definition show_int :: "int \<Rightarrow> string" where
  "show_int n = (if n < 0 then CHR ''-'' # show_nat (nat (- n)) else show_nat (nat n))"

fun join :: "string \<Rightarrow> string list \<Rightarrow> string" where
  "join sep [] = []"
| "join sep [x] = x"
| "join sep (x # y # ys) = x @ sep @ join sep (y # ys)"

fun json_dumps :: "json \<Rightarrow> string" where
  "json_dumps JNull = ''null''"
| "json_dumps (JBool b) = (if b then ''true'' else ''false'')"
| "json_dumps (JInt n) = show_int n"
| "json_dumps (JStr s) = json_string s"
| "json_dumps (JList xs) = ''['' @ join '','' (map json_dumps xs) @ '']''"
| "json_dumps (JObj kvs) =
     ''{'' @ join '','' (map (\<lambda>kv. json_string (fst kv) @ '':'' @ json_dumps (snd kv)) kvs) @ ''}''"

text \<open>Truth value of a JSON value, and \<open>dict.get\<close> on a dictionary of JSON values.\<close>

fun truthy :: "json \<Rightarrow> bool" where
  "truthy JNull = False"
| "truthy (JBool b) = b"
| "truthy (JInt n) = (n \<noteq> 0)"
| "truthy (JStr s) = (s \<noteq> [])"
| "truthy (JList xs) = (xs \<noteq> [])"
| "truthy (JObj kvs) = (kvs \<noteq> [])"

definition dict_get :: "(string \<times> json) list \<Rightarrow> string \<Rightarrow> json \<Rightarrow> json" where
  "dict_get d k dflt = (case map_of d k of Some v \<Rightarrow> v | None \<Rightarrow> dflt)"

text \<open>Assignment to a key: the value is replaced in place, a new key goes to the end.\<close>

fun dict_set :: "(string \<times> json) list \<Rightarrow> string \<Rightarrow> json \<Rightarrow> (string \<times> json) list" where
  "dict_set [] k v = [(k, v)]"
| "dict_set ((k', v') # d) k v = (if k' = k then (k, v) # d else (k', v') # dict_set d k v)"

section \<open>The payment gateway client\<close>

text \<open>
  The fields set by \<open>__init__\<close>. The settings module is outside the sources: a setting
  is looked up by name, with the default the code gives.
\<close>

record phonepe_service =
  environment :: string
  merchant_id :: string
  salt_key :: string
  salt_index :: string
  base_url :: string
  callback_url :: string
  redirect_url :: string

definition getattr :: "(string \<Rightarrow> string option) \<Rightarrow> string \<Rightarrow> string \<Rightarrow> string" where
  "getattr settings name dflt = (case settings name of Some v \<Rightarrow> v | None \<Rightarrow> dflt)"

definition init :: "(string \<Rightarrow> string option) \<Rightarrow> phonepe_service" where
  "init settings =
     (let env = getattr settings ''PHONEPE_ENVIRONMENT'' ''sandbox''
      in if env = ''production''
         then \<lparr>environment = env,
               merchant_id = getattr settings ''PHONEPE_PROD_MERCHANT_ID'' [],
               salt_key = getattr settings ''PHONEPE_PROD_SALT_KEY'' [],
               salt_index = getattr settings ''PHONEPE_PROD_SALT_INDEX'' ''1'',
               base_url = getattr settings ''PHONEPE_PROD_PAY_URL''
                            ''https://api.phonepe.com/apis/hermes/pg/v1/pay'',
               callback_url = getattr settings ''PHONEPE_CALLBACK_URL'' [],
               redirect_url = getattr settings ''PHONEPE_REDIRECT_URL'' []\<rparr>
         else \<lparr>environment = env,
               merchant_id = getattr settings ''PHONEPE_MERCHANT_ID'' ''PGTESTPAYUAT86'',
               salt_key = getattr settings ''PHONEPE_SALT_KEY''
                            ''96434309-7796-489d-8924-ab56988a6076'',
               salt_index = getattr settings ''PHONEPE_SALT_INDEX'' ''1'',
               base_url = getattr settings ''PHONEPE_SANDBOX_PAY_URL''
                            ''https://api-preprod.phonepe.com/apis/pg-sandbox/pg/v1/pay'',
               callback_url = getattr settings ''PHONEPE_CALLBACK_URL'' [],
               redirect_url = getattr settings ''PHONEPE_REDIRECT_URL'' []\<rparr>)"

definition generate_x_verify_header ::
  "(bytes \<Rightarrow> bytes) \<Rightarrow> phonepe_service \<Rightarrow> string \<Rightarrow> string \<Rightarrow> string" where
  "generate_x_verify_header sha256 svc payload_string endpoint =
     (let message = payload_string @ endpoint @ salt_key svc;
          sha256_hash = hexdigest_of (sha256 (encode_utf8 message));
          verify_string = sha256_hash @ ''###'' @ salt_index svc
      in verify_string)"

definition encode_base64 :: "json \<Rightarrow> string" where
  "encode_base64 payload =
     (let payload_string = json_dumps payload
      in b64encode (encode_utf8 payload_string))"

subsection \<open>The two signed requests\<close>

record http_request =
  url :: string
  headers :: "(string \<times> string) list"
  request_payload :: "(string \<times> string) list"

text \<open>\<open>str.upper\<close> on the hexadecimal digits of a UUID.\<close>

definition upper :: "string \<Rightarrow> string" where
  "upper s = map (\<lambda>c. if 97 \<le> (of_char c :: nat) \<and> (of_char c :: nat) \<le> 122
                        then char_of ((of_char c :: nat) - 32) else c) s"

definition new_transaction_id :: "string \<Rightarrow> string \<Rightarrow> string" where
  "new_transaction_id payment_id uuid_hex = ''TXN'' @ payment_id @ upper (take 8 uuid_hex)"

definition pay_payload ::
  "phonepe_service \<Rightarrow> string \<Rightarrow> int \<Rightarrow> (string \<times> json) list \<Rightarrow> json option \<Rightarrow> json" where
  "pay_payload svc transaction_id paise customer_info additional_info =
     (let payload =
            [(''merchantId'', JStr (merchant_id svc)),
             (''merchantTransactionId'', JStr transaction_id),
             (''merchantUserId'', dict_get customer_info ''mobile'' (JStr [])),
             (''amount'', JInt paise),
             (''redirectUrl'', JStr (redirect_url svc @ ''?transaction_id='' @ transaction_id)),
             (''redirectMode'', JStr ''REDIRECT''),
             (''callbackUrl'', JStr (callback_url svc)),
             (''mobileNumber'', dict_get customer_info ''mobile'' (JStr [])),
             (''paymentInstrument'', JObj [(''type'', JStr ''PAY_PAGE'')])];
          payload1 = (if truthy (dict_get customer_info ''email'' JNull)
                      then dict_set payload ''merchantUserId''
                             (dict_get customer_info ''email'' JNull)
                      else payload);
          payload2 = (case additional_info of
                        Some info \<Rightarrow> (if truthy info
                                      then dict_set payload1 ''additionalInfo'' info
                                      else payload1)
                      | None \<Rightarrow> payload1)
      in JObj payload2)"

definition pay_request :: "(bytes \<Rightarrow> bytes) \<Rightarrow> phonepe_service \<Rightarrow> json \<Rightarrow> http_request" where
  "pay_request sha256 svc payload =
     (let encoded_payload = encode_base64 payload;
          endpoint = ''/pg/v1/pay'';
          x_verify = generate_x_verify_header sha256 svc encoded_payload endpoint
      in \<lparr>url = base_url svc,
          headers = [(''Content-Type'', ''application/json''),
                     (''X-VERIFY'', x_verify),
                     (''Accept'', ''application/json'')],
          request_payload = [(''request'', encoded_payload)]\<rparr>)"

definition status_payload :: "phonepe_service \<Rightarrow> string \<Rightarrow> json" where
  "status_payload svc merchant_transaction_id =
     JObj [(''merchantId'', JStr (merchant_id svc)),
           (''merchantTransactionId'', JStr merchant_transaction_id)]"

definition status_request :: "(bytes \<Rightarrow> bytes) \<Rightarrow> phonepe_service \<Rightarrow> string \<Rightarrow> http_request" where
  "status_request sha256 svc merchant_transaction_id =
     (let status_endpoint = ''/pg/v1/status'';
          status_url = (if environment svc = ''production''
                        then ''https://api.phonepe.com/apis/hermes/pg/v1/status''
                        else ''https://api-preprod.phonepe.com/apis/pg-sandbox/pg/v1/status'');
          encoded_payload = encode_base64 (status_payload svc merchant_transaction_id);
          x_verify = generate_x_verify_header sha256 svc encoded_payload status_endpoint
      in \<lparr>url = status_url,
          headers = [(''Content-Type'', ''application/json''),
                     (''X-VERIFY'', x_verify),
                     (''X-MERCHANT-ID'', merchant_id svc),
                     (''Accept'', ''application/json'')],
          request_payload = [(''request'', encoded_payload)]\<rparr>)"

subsection \<open>Initiating a payment\<close>

text \<open>
  What the POST comes back with: a transport or HTTP failure (any
  \<open>RequestException\<close>, with its text), or the decoded JSON body.
\<close>

datatype http_outcome = RequestException string | Response json

datatype payment_result =
    PaymentInitiated json string json
  | GatewayFailure json json
  | NetworkError string
  | InitiationError exn

text \<open>\<open>.get\<close> on a value that came out of JSON: only a dictionary has it.\<close>

definition json_get :: "json \<Rightarrow> string \<Rightarrow> json \<Rightarrow> exn + json" where
  "json_get j k dflt = (case j of JObj d \<Rightarrow> Inr (dict_get d k dflt) | _ \<Rightarrow> Inl AttributeError)"

definition redirect_url_of :: "json \<Rightarrow> exn + json" where
  "redirect_url_of data =
     (case json_get data ''instrumentResponse'' (JObj []) of
        Inl e \<Rightarrow> Inl e
      | Inr ir \<Rightarrow>
          (case json_get ir ''redirectInfo'' (JObj []) of
             Inl e \<Rightarrow> Inl e
           | Inr ri \<Rightarrow> json_get ri ''url'' JNull))"

definition pay_response :: "string \<Rightarrow> http_outcome \<Rightarrow> payment_result" where
  "pay_response transaction_id outcome =
     (case outcome of
        RequestException msg \<Rightarrow> NetworkError msg
      | Response response_data \<Rightarrow>
          (case json_get response_data ''success'' JNull of
             Inl e \<Rightarrow> InitiationError e
           | Inr success \<Rightarrow>
               (case json_get response_data ''data'' JNull of
                  Inl e \<Rightarrow> InitiationError e
                | Inr data \<Rightarrow>
                    if truthy success \<and> truthy data
                    then (case redirect_url_of data of
                            Inl e \<Rightarrow> InitiationError e
                          | Inr payment_url \<Rightarrow>
                              PaymentInitiated payment_url transaction_id response_data)
                    else (case json_get response_data ''message''
                                 (JStr ''Payment initiation failed'') of
                            Inl e \<Rightarrow> InitiationError e
                          | Inr msg \<Rightarrow> GatewayFailure msg response_data))))"

text \<open>
  \<open>initiate_payment\<close>: the amount is the decimal \<open>c * 10 ^ e\<close>, \<open>uuid_hex\<close> the
  hexadecimal form of the fresh UUID, \<open>post\<close> the gateway. The conversion of the amount
  stands before the \<open>try\<close> block, so its exception leaves the method.
\<close>

definition initiate_payment ::
  "(bytes \<Rightarrow> bytes) \<Rightarrow> (http_request \<Rightarrow> http_outcome) \<Rightarrow> string \<Rightarrow> phonepe_service
     \<Rightarrow> string \<Rightarrow> int \<Rightarrow> int \<Rightarrow> (string \<times> json) list \<Rightarrow> json option
     \<Rightarrow> exn + payment_result" where
  "initiate_payment sha256 post uuid_hex svc payment_id c e customer_info additional_info =
     (case amount_in_paise c e of
        Inl ex \<Rightarrow> Inl ex
      | Inr paise \<Rightarrow>
          (let transaction_id = new_transaction_id payment_id uuid_hex;
               payload = pay_payload svc transaction_id paise customer_info additional_info
           in Inr (pay_response transaction_id (post (pay_request sha256 svc payload)))))"

subsection \<open>Webhook signatures\<close>

text \<open>\<open>str.split(sep)\<close> for a separator that is not empty.\<close>

function split_from :: "string \<Rightarrow> string \<Rightarrow> string \<Rightarrow> string list" where
  "split_from sep cur rest =
     (case rest of
        [] \<Rightarrow> [cur]
      | c # cs \<Rightarrow>
          if sep \<noteq> [] \<and> take (length sep) rest = sep
          then cur # split_from sep [] (drop (length sep) rest)
          else split_from sep (cur @ [c]) cs)"
  by pat_completeness auto
termination
  by (relation "measure (\<lambda>(sep, cur, rest). length rest)") auto

declare split_from.simps [simp del]

definition str_split :: "string \<Rightarrow> string \<Rightarrow> string list" where
  "str_split s sep = split_from sep [] s"

definition lower_hex :: "char \<Rightarrow> bool" where
  "lower_hex c = (c \<in> set ''0123456789abcdef'')"

definition is_ascii :: "string \<Rightarrow> bool" where
  "is_ascii s = list_all (\<lambda>c. (of_char c :: nat) < 128) s"

text \<open>\<open>hmac.compare_digest\<close> on two strings: it refuses text that is not ASCII.\<close>

definition compare_digest :: "string \<Rightarrow> string \<Rightarrow> exn + bool" where
  "compare_digest a b = (if is_ascii a \<and> is_ascii b then Inr (a = b) else Inl TypeError)"

text \<open>
  The body of the \<open>try\<close> block of \<open>verify_webhook_signature\<close>. The header value is
  \<open>None\<close> when the request carries no such header; \<open>split\<close> then fails.
\<close>

definition verify_webhook_signature_try ::
  "(bytes \<Rightarrow> bytes) \<Rightarrow> phonepe_service \<Rightarrow> string \<Rightarrow> string option \<Rightarrow> exn + bool" where
  "verify_webhook_signature_try sha256 svc payload x_verify_header =
     (case x_verify_header of
        None \<Rightarrow> Inl AttributeError
      | Some h \<Rightarrow>
          (let parts = str_split h ''###''
           in if length parts \<noteq> 2 then Inr False
              else (let received_hash = parts ! 0;
                        message = payload @ salt_key svc;
                        calculated_hash = hexdigest_of (sha256 (encode_utf8 message))
                    in compare_digest calculated_hash received_hash)))"

definition verify_webhook_signature ::
  "(bytes \<Rightarrow> bytes) \<Rightarrow> phonepe_service \<Rightarrow> string \<Rightarrow> string option \<Rightarrow> bool" where
  "verify_webhook_signature sha256 svc payload x_verify_header =
     (case verify_webhook_signature_try sha256 svc payload x_verify_header of
        Inl e \<Rightarrow> False
      | Inr ok \<Rightarrow> ok)"

subsection \<open>Sample client\<close>

text \<open>
  The client that an empty settings module gives, and a stand-in digest for the worked
  examples: the first four bytes of the message.
\<close>

definition default_client :: phonepe_service where
  "default_client = init (\<lambda>name. None)"

definition sample_digest :: "bytes \<Rightarrow> bytes" where
  "sample_digest m = take 4 m"

section \<open>Properties of the identifier generator\<close>

lemma py_int_raises: "py_int s = Inl e \<Longrightarrow> e = ValueError"
  by (auto simp: py_int_def Let_def split: prod.splits option.splits)

lemma consultation_last_number_raises:
  "consultation_last_number rows l = Inl e \<Longrightarrow> e = ValueError"
  by (auto simp: consultation_last_number_def split: if_splits option.splits
           dest: py_int_raises)

lemma consultation_new_number_total: "\<exists>n. consultation_new_number rows = Inr n"
proof (cases "last_by_id rows")
  case None
  then show ?thesis by (simp add: consultation_new_number_def)
next
  case (Some l)
  show ?thesis
  proof (cases "consultation_last_number rows l")
    case (Inl e)
    then have "e = ValueError" by (rule consultation_last_number_raises)
    with Inl Some show ?thesis by (simp add: consultation_new_number_def)
  next
    case (Inr n)
    with Some show ?thesis by (simp add: consultation_new_number_def)
  qed
qed

lemma generate_consultation_id_total: "\<exists>s. generate_consultation_id rows = Inr s"
  using consultation_new_number_total [of rows]
  by (auto simp: generate_consultation_id_def)

section \<open>Eligibility for a reschedule\<close>

text \<open>
  C7. \<open>is_eligible_for_reschedule\<close> holds exactly when the status is neither
  \<open>completed\<close> nor \<open>cancelled\<close> and the scheduled datetime is earlier than the current
  time minus one hour. A consultation scheduled 30 minutes before the current time is not
  eligible; one scheduled 2 hours before it, in a status other than those two, is.
\<close>

theorem is_eligible_for_reschedule_iff:
  "(is_eligible_for_reschedule tz now c \<longleftrightarrow>
      status c \<noteq> Completed \<and> status c \<noteq> Cancelled \<and>
      scheduled_datetime tz c < now - hours 1) \<and>
   (scheduled_datetime tz c = now - minutes 30 \<longrightarrow> \<not> is_eligible_for_reschedule tz now c) \<and>
   (scheduled_datetime tz c = now - hours 2 \<and> status c \<noteq> Completed \<and> status c \<noteq> Cancelled
      \<longrightarrow> is_eligible_for_reschedule tz now c)"
  by (auto simp: is_eligible_for_reschedule_def Let_def hours_def minutes_def)

theorem is_eligible_for_reschedule_iff_witness:
  "scheduled_datetime utc sample_consultation = (sample_start + minutes 30) - minutes 30 \<and>
   \<not> is_eligible_for_reschedule utc (sample_start + minutes 30) sample_consultation \<and>
   scheduled_datetime utc sample_consultation = (sample_start + hours 2) - hours 2 \<and>
   status sample_consultation \<noteq> Completed \<and> status sample_consultation \<noteq> Cancelled \<and>
   is_eligible_for_reschedule utc (sample_start + hours 2) sample_consultation"
proof -
  have at: "scheduled_datetime utc sample_consultation = sample_start"
    by (simp add: scheduled_datetime_def make_aware_def combine_def utc_def
                  sample_consultation_def sample_start_def)
  have st: "status sample_consultation = Scheduled"
    by (simp add: sample_consultation_def)
  show ?thesis
    using is_eligible_for_reschedule_iff [of utc "sample_start + minutes 30" sample_consultation]
          is_eligible_for_reschedule_iff [of utc "sample_start + hours 2" sample_consultation]
          at st
    by (simp add: hours_def minutes_def)
qed

section \<open>The three-step gate\<close>

text \<open>
  C2. \<open>approve_reschedule\<close> without a request raises the validation error "No reschedule
  request to approve", \<open>apply_reschedule\<close> without approval raises "Reschedule must be
  approved before applying", and \<open>request_reschedule\<close> on an ineligible consultation
  raises "This consultation is not eligible for reschedule". In each case the object and
  the tables afterwards are the ones before the call.
\<close>

theorem reschedule_gate_errors:
  "(\<not> reschedule_requested c \<longrightarrow>
      approve_reschedule now by c d
        = (Inl (ValidationError ''No reschedule request to approve''), c, d)) \<and>
   (\<not> reschedule_approved c \<longrightarrow>
      apply_reschedule now nd nt why c d
        = (Inl (ValidationError ''Reschedule must be approved before applying''), c, d)) \<and>
   (\<not> is_eligible_for_reschedule tz now c \<longrightarrow>
      request_reschedule tz now by why c d
        = (Inl (ValidationError ''This consultation is not eligible for reschedule''), c, d))"
  by (simp add: approve_reschedule_def apply_reschedule_def request_reschedule_def)

theorem reschedule_gate_errors_witness:
  "\<not> reschedule_requested sample_consultation \<and>
   approve_reschedule sample_start 3 sample_consultation sample_db
     = (Inl (ValidationError ''No reschedule request to approve''),
        sample_consultation, sample_db) \<and>
   \<not> reschedule_approved sample_consultation \<and>
   apply_reschedule sample_start 20001 0 ''late'' sample_consultation sample_db
     = (Inl (ValidationError ''Reschedule must be approved before applying''),
        sample_consultation, sample_db) \<and>
   \<not> is_eligible_for_reschedule utc sample_start sample_consultation \<and>
   request_reschedule utc sample_start 3 ''late'' sample_consultation sample_db
     = (Inl (ValidationError ''This consultation is not eligible for reschedule''),
        sample_consultation, sample_db)"
proof -
  have a: "\<not> reschedule_requested sample_consultation"
    and b: "\<not> reschedule_approved sample_consultation"
    by (simp_all add: sample_consultation_def)
  have c: "\<not> is_eligible_for_reschedule utc sample_start sample_consultation"
    by (simp add: is_eligible_for_reschedule_def scheduled_datetime_def make_aware_def
                  combine_def utc_def hours_def sample_consultation_def sample_start_def)
  show ?thesis
    using reschedule_gate_errors
            [of sample_consultation sample_start 3 sample_db 20001 0 "''late''" utc]
          a b c
    by simp
qed

section \<open>Identifiers in a foreign or corrupted format\<close>

lemma py_int_examples:
  "py_int ''007'' = Inr 7"
  "py_int ''999'' = Inr 999"
  "py_int ''000041'' = Inr 41"
  "py_int ''abc'' = Inl ValueError"
  "py_int ''-2024-0001'' = Inl ValueError"
  by code_simp+

lemma format_0d_examples:
  "format_0d 3 1 = ''001''"
  "format_0d 3 8 = ''008''"
  "format_0d 3 1000 = ''1000''"
  "format_0d 6 1 = ''000001''"
  "format_0d 6 42 = ''000042''"
  by code_simp+

lemmas consultation_id_defs =
  generate_consultation_id_def consultation_new_number_def consultation_last_number_def
  startswith_def sample_consultation_def

lemmas receipt_number_defs =
  generate_receipt_number_def receipt_new_number_def last_receipt_def foreign_receipt_def

lemma consultation_id_examples:
  "generate_consultation_id [] = Inr ''CON001''"
  "generate_consultation_id [sample_consultation] = Inr ''CON008''"
  "generate_consultation_id [sample_consultation, sample_consultation\<lparr>id_pk := ''ZZZ''\<rparr>]
     = Inr ''CON008''"
  by (simp_all add: consultation_id_defs py_int_examples format_0d_examples)

text \<open>
  The scan of the prefixed identifiers takes the last one in text order, which after
  \<open>CON999\<close> is no longer the one with the greatest number.
\<close>

lemma consultation_scan_takes_last_text:
  "generate_consultation_id
     [sample_consultation\<lparr>id_pk := ''CON1000''\<rparr>, sample_consultation\<lparr>id_pk := ''CON999''\<rparr>,
      sample_consultation\<lparr>id_pk := ''ZZZ''\<rparr>] = Inr ''CON1000''"
  by (simp add: consultation_id_defs py_int_examples format_0d_examples)

lemma receipt_number_examples:
  "generate_receipt_number [] = Inr ''RCP000001''"
  "generate_receipt_number [foreign_receipt\<lparr>receipt_number := ''RCP000041''\<rparr>]
     = Inr ''RCP000042''"
  by (simp_all add: receipt_number_defs py_int_examples format_0d_examples)

text \<open>
  C6. The receipt generator has no recovery: with a stored last receipt whose number is
  not \<open>RCP\<close> followed by digits, generating the next number raises \<open>ValueError\<close> and
  the save of the new receipt fails with it. The consultation generator, on a stored
  identifier in a foreign or corrupted format, restarts at \<open>CON001\<close>.
\<close>

theorem receipt_number_generation_raises:
  "generate_receipt_number [foreign_receipt] = Inl ValueError \<and>
   receipt_save 1700000000000001 new_receipt [foreign_receipt] = Inl ValueError \<and>
   generate_receipt_number [foreign_receipt\<lparr>receipt_number := ''RCPabc''\<rparr>] = Inl ValueError \<and>
   generate_consultation_id [sample_consultation\<lparr>id_pk := ''APT-0042''\<rparr>] = Inr ''CON001'' \<and>
   generate_consultation_id [sample_consultation\<lparr>id_pk := ''CONabc''\<rparr>] = Inr ''CON001''"
  by (simp add: receipt_number_defs consultation_id_defs receipt_save_def new_receipt_def
                py_int_examples format_0d_examples)

section \<open>What a save does\<close>

lemma model_save_object:
  "model_save now c d = (r, c', d') \<Longrightarrow>
     c' = c\<lparr>created_at := created_at c', updated_at := updated_at c'\<rparr>"
  by (auto simp: model_save_def Let_def split: if_splits)

lemma save_object:
  assumes "save now c d = (r, c', d')"
  shows "c' = c\<lparr>id_pk := id_pk c', created_at := created_at c', updated_at := updated_at c'\<rparr>"
proof (cases "id_pk c = []")
  case True
  obtain s where s: "generate_consultation_id (consultations d) = Inr s"
    using generate_consultation_id_total by blast
  have m: "model_save now (c\<lparr>id_pk := s\<rparr>) d = (r, c', d')"
    using assms True s by (simp add: save_def)
  show ?thesis
    using model_save_object [OF m] by (cases c, cases c') simp
next
  case False
  have m: "model_save now c d = (r, c', d')"
    using assms False by (simp add: save_def)
  show ?thesis
    using model_save_object [OF m] by (cases c, cases c') simp
qed

lemma save_stored:
  assumes "stored c d"
  shows "save now c d =
           (Inr (), c\<lparr>updated_at := Some now\<rparr>,
            d\<lparr>consultations :=
                map (\<lambda>r. if id_pk r = id_pk c then c\<lparr>updated_at := Some now\<rparr> else r)
                    (consultations d)\<rparr>)"
  using assms by (simp add: stored_def save_def model_save_def Let_def)


text \<open>
  A new consultation saved into a table where the generated key is in use: the last
  key in text order is \<open>CON999\<close>, so \<open>CON1000\<close> is generated again and refused.
\<close>

lemma save_unsaved_collides:
  "save now unsaved_consultation crowded_db
     = (Inl IntegrityError,
        unsaved_consultation\<lparr>id_pk := ''CON1000'', updated_at := Some now\<rparr>, crowded_db)"
  by (simp add: save_def model_save_def row_exists_def generate_consultation_id_def
                consultation_new_number_def consultation_last_number_def startswith_def
                unsaved_consultation_def crowded_db_def sample_consultation_def
                py_int_examples format_0d_examples Let_def)

section \<open>Check-in\<close>




section \<open>Ready marking\<close>



section \<open>Applying a reschedule\<close>

lemma apply_reschedule_stored:
  assumes "reschedule_approved c" and "reschedule_requested_by c = Some u" and "stored c d"
  shows "\<exists>c' d'. apply_reschedule now nd nt why c d = (Inr True, c', d') \<and>
           reschedule_history d' = reschedule_history d @
             [\<lparr>consultation_ref = id_pk c,
               old_date = scheduled_date c, old_time = scheduled_time c,
               new_date = nd, new_time = nt, reason = why, requested_by = u,
               history_created_at = now\<rparr>] \<and>
           scheduled_date c' = nd \<and> scheduled_time c' = nt \<and>
           \<not> reschedule_requested c' \<and> \<not> reschedule_approved c' \<and>
           reschedule_requested_at c' = None \<and> reschedule_approved_at c' = None \<and>
           rescheduled_at c' = Some now \<and>
           reschedule_reason c' = [] \<and>
           status c' = Rescheduled"
proof -
  define c1 where "c1 = c\<lparr>scheduled_date := nd, scheduled_time := nt,
                           status := Rescheduled,
                           reschedule_requested := False, reschedule_approved := False,
                           reschedule_requested_at := None, reschedule_approved_at := None,
                           rescheduled_at := Some now, reschedule_reason := []\<rparr>"
  have st: "stored c1 d"
    using assms(3) by (simp add: stored_def c1_def)
  have who: "reschedule_requested_by (c1\<lparr>updated_at := Some now\<rparr>) = Some u"
    using assms(2) by (simp add: c1_def)
  show ?thesis
    using assms(1) save_stored [OF st, of now] who
    by (simp add: apply_reschedule_def create_reschedule_def c1_def [symmetric] Let_def)
       (simp add: c1_def)
qed

text \<open>
  C3. \<open>apply_reschedule\<close> saves the consultation with the new schedule and only then
  creates the history row, taking the requesting actor from a column that may be null.
  For the approved sample consultation whose requesting user has been deleted, the
  consultation is saved as \<open>rescheduled\<close> with the new date and time, the creation of
  the history row raises \<open>IntegrityError\<close>, and the history stays empty: no record
  of the reschedule is produced.
\<close>

theorem apply_reschedule_without_requester:
  "reschedule_approved orphaned_consultation \<and>
   fst (apply_reschedule (sample_start + hours 4) 20001 32400000000 ''doctor away''
          orphaned_consultation
          \<lparr>consultations = [orphaned_consultation], reschedule_history = []\<rparr>)
     = Inl IntegrityError \<and>
   map status (consultations (snd (snd
     (apply_reschedule (sample_start + hours 4) 20001 32400000000 ''doctor away''
        orphaned_consultation
        \<lparr>consultations = [orphaned_consultation], reschedule_history = []\<rparr>))))
     = [Rescheduled] \<and>
   map scheduled_date (consultations (snd (snd
     (apply_reschedule (sample_start + hours 4) 20001 32400000000 ''doctor away''
        orphaned_consultation
        \<lparr>consultations = [orphaned_consultation], reschedule_history = []\<rparr>))))
     = [20001] \<and>
   reschedule_history (snd (snd
     (apply_reschedule (sample_start + hours 4) 20001 32400000000 ''doctor away''
        orphaned_consultation
        \<lparr>consultations = [orphaned_consultation], reschedule_history = []\<rparr>)))
     = []"
  by (simp add: apply_reschedule_def save_def model_save_def row_exists_def
                create_reschedule_def orphaned_consultation_def approved_consultation_def
                sample_consultation_def Let_def)

section \<open>The methods of the model and the cancellation columns\<close>

lemma saved_object_keeps:
  assumes "(case save now c1 d of
              (Inl e, c2, d2) \<Rightarrow> (Inl e, c2, d2)
            | (Inr ok, c2, d2) \<Rightarrow> (Inr True, c2, d2)) = (r, c', d')"
  shows "status c' = status c1 \<and> cancelled_by c' = cancelled_by c1 \<and>
         cancellation_reason c' = cancellation_reason c1 \<and> cancelled_at c' = cancelled_at c1"
proof -
  obtain r0 c2 d2 where sv: "save now c1 d = (r0, c2, d2)"
    by (cases "save now c1 d") auto
  have eq: "c' = c2"
    using assms sv by (cases r0) auto
  have obj: "c2 = c1\<lparr>id_pk := id_pk c2, created_at := created_at c2,
                       updated_at := updated_at c2\<rparr>"
    using sv by (rule save_object)
  have "status c2 = status c1" "cancelled_by c2 = cancelled_by c1"
       "cancellation_reason c2 = cancellation_reason c1" "cancelled_at c2 = cancelled_at c1"
    by (subst obj, simp)+
  then show ?thesis by (simp add: eq)
qed

text \<open>
  None of the methods that move a consultation forward writes \<open>cancelled_by\<close>,
  \<open>cancellation_reason\<close> or \<open>cancelled_at\<close>, and none sets the status \<open>cancelled\<close>.
\<close>

lemma check_in_leaves_cancellation:
  assumes "check_in_patient now u c d = (r, c', d')"
  shows "cancelled_by c' = cancelled_by c \<and> cancellation_reason c' = cancellation_reason c \<and>
         cancelled_at c' = cancelled_at c \<and> (status c' = Cancelled \<longrightarrow> status c = Cancelled)"
proof (cases "status c = Scheduled")
  case True
  with assms saved_object_keeps
         [where ?c1.0 = "c\<lparr>status := Patient_checked_in, checked_in_at := Some now,
                                checked_in_by := Some u\<rparr>"]
  show ?thesis by (simp add: check_in_patient_def Let_def)
next
  case False
  with assms show ?thesis by (simp add: check_in_patient_def)
qed

lemma request_leaves_cancellation:
  assumes "request_reschedule tz now u why c d = (r, c', d')"
  shows "cancelled_by c' = cancelled_by c \<and> cancellation_reason c' = cancellation_reason c \<and>
         cancelled_at c' = cancelled_at c \<and> (status c' = Cancelled \<longrightarrow> status c = Cancelled)"
proof (cases "is_eligible_for_reschedule tz now c")
  case True
  with assms saved_object_keeps
         [where ?c1.0 = "c\<lparr>reschedule_requested := True,
                                reschedule_requested_at := Some now,
                                reschedule_requested_by := Some u, reschedule_reason := why,
                                status := Overdue\<rparr>"]
  show ?thesis by (simp add: request_reschedule_def Let_def)
next
  case False
  with assms show ?thesis by (simp add: request_reschedule_def)
qed

lemma mark_ready_leaves_cancellation:
  assumes "mark_ready_for_consultation now u c d = (r, c', d')"
  shows "cancelled_by c' = cancelled_by c \<and> cancellation_reason c' = cancellation_reason c \<and>
         cancelled_at c' = cancelled_at c \<and> (status c' = Cancelled \<longrightarrow> status c = Cancelled)"
proof (cases "status c = Scheduled \<or> status c = Patient_checked_in")
  case True
  with assms saved_object_keeps
         [where ?c1.0 = "c\<lparr>status := Ready_for_consultation,
                                ready_for_consultation_at := Some now,
                                ready_marked_by := Some u\<rparr>"]
  show ?thesis by (auto simp: mark_ready_for_consultation_def Let_def)
next
  case False
  with assms show ?thesis by (simp add: mark_ready_for_consultation_def)
qed

lemma start_leaves_cancellation:
  assumes "start_consultation now c d = (r, c', d')"
  shows "cancelled_by c' = cancelled_by c \<and> cancellation_reason c' = cancellation_reason c \<and>
         cancelled_at c' = cancelled_at c \<and> (status c' = Cancelled \<longrightarrow> status c = Cancelled)"
proof (cases "status c = Ready_for_consultation \<or> status c = Patient_checked_in")
  case True
  with assms saved_object_keeps
         [where ?c1.0 = "c\<lparr>status := In_progress, actual_start_time := Some now\<rparr>"]
  show ?thesis by (auto simp: start_consultation_def Let_def)
next
  case False
  with assms show ?thesis by (simp add: start_consultation_def)
qed

lemma approve_leaves_cancellation:
  assumes "approve_reschedule now u c d = (r, c', d')"
  shows "cancelled_by c' = cancelled_by c \<and> cancellation_reason c' = cancellation_reason c \<and>
         cancelled_at c' = cancelled_at c \<and> (status c' = Cancelled \<longrightarrow> status c = Cancelled)"
proof (cases "reschedule_requested c")
  case True
  with assms saved_object_keeps
         [where ?c1.0 = "c\<lparr>reschedule_approved := True, reschedule_approved_by := Some u,
                                reschedule_approved_at := Some now\<rparr>"]
  show ?thesis by (simp add: approve_reschedule_def Let_def)
next
  case False
  with assms show ?thesis by (simp add: approve_reschedule_def)
qed

lemma apply_leaves_cancellation:
  assumes "apply_reschedule now nd nt why c d = (r, c', d')"
  shows "cancelled_by c' = cancelled_by c \<and> cancellation_reason c' = cancellation_reason c \<and>
         cancelled_at c' = cancelled_at c \<and> (status c' = Cancelled \<longrightarrow> status c = Cancelled)"
proof (cases "reschedule_approved c")
  case False
  with assms show ?thesis by (simp add: apply_reschedule_def)
next
  case True
  define c1 where "c1 = c\<lparr>scheduled_date := nd, scheduled_time := nt,
                           status := Rescheduled,
                           reschedule_requested := False, reschedule_approved := False,
                           reschedule_requested_at := None, reschedule_approved_at := None,
                           rescheduled_at := Some now, reschedule_reason := []\<rparr>"
  obtain r0 c2 d2 where sv: "save now c1 d = (r0, c2, d2)"
    by (cases "save now c1 d") auto
  have obj: "c2 = c1\<lparr>id_pk := id_pk c2, created_at := created_at c2,
                       updated_at := updated_at c2\<rparr>"
    using sv by (rule save_object)
  have keep: "status c2 = status c1" "cancelled_by c2 = cancelled_by c1"
             "cancellation_reason c2 = cancellation_reason c1" "cancelled_at c2 = cancelled_at c1"
    by (subst obj, simp)+
  have "c' = c2"
    using assms True sv
    by (cases r0) (auto simp: apply_reschedule_def c1_def Let_def split: sum.splits)
  with keep show ?thesis by (simp add: c1_def)
qed

section \<open>Cancelling\<close>

text \<open>
  C9. For every consultation in a non-terminal status, \<open>cancel\<close> succeeds, the status
  becomes \<open>cancelled\<close>, \<open>cancelled_by\<close> is the actor, \<open>cancellation_reason\<close> the reason
  and \<open>cancelled_at\<close> the current time.
\<close>

theorem cancel_non_terminal:
  assumes "\<not> terminal (status c)"
  shows "fst (cancel now actor why c) = True \<and>
         status (snd (cancel now actor why c)) = Cancelled \<and>
         cancelled_by (snd (cancel now actor why c)) = Some actor \<and>
         cancellation_reason (snd (cancel now actor why c)) = why \<and>
         cancelled_at (snd (cancel now actor why c)) = Some now"
  using assms by (simp add: cancel_def)

theorem cancel_non_terminal_witness:
  "\<not> terminal (status sample_consultation) \<and>
   fst (cancel sample_start 11 ''patient unwell'' sample_consultation) = True \<and>
   status (snd (cancel sample_start 11 ''patient unwell'' sample_consultation)) = Cancelled \<and>
   cancelled_by (snd (cancel sample_start 11 ''patient unwell'' sample_consultation)) = Some 11 \<and>
   cancellation_reason (snd (cancel sample_start 11 ''patient unwell'' sample_consultation))
     = ''patient unwell'' \<and>
   cancelled_at (snd (cancel sample_start 11 ''patient unwell'' sample_consultation))
     = Some sample_start"
proof -
  have nt: "\<not> terminal (status sample_consultation)"
    by (simp add: terminal_def sample_consultation_def)
  from cancel_non_terminal [OF nt, of sample_start 11 "''patient unwell''"] nt
  show ?thesis by simp
qed

section \<open>Conversion of the amount\<close>

lemmas float_defs =
  amount_in_paise_def float_of_decimal_def round_to_double_def floor_log2_def
  div_half_even_def float_times_def int_of_float_def bit_length.simps Let_def

lemma float_of_decimal_example:
  "float_of_decimal 1999 (- 2) = Finite 5626684784446013 (- 48)"
  by (simp add: float_defs)

lemma amount_in_paise_examples:
  "amount_in_paise 0 0 = Inr 0"
  "amount_in_paise 11 (- 1) = Inr 110"
  "amount_in_paise 29 (- 2) = Inr 28"
  "amount_in_paise 115 (- 2) = Inr 114"
  "amount_in_paise (- 1999) (- 2) = Inr (- 1998)"
  by (simp_all add: float_defs)

text \<open>
  C1. For the amount 19.99 the code sends 1998 minor units, where \<open>round(amount * 100)\<close>
  without loss of precision is 1999: the product of the two floats lies just below 1999
  and \<open>int\<close> cuts the fraction off. The amount 100.00 does give 10000.
\<close>

theorem amount_in_paise_drifts:
  "amount_in_paise 1999 (- 2) = Inr 1998 \<and>
   spec_minor_units 1999 (- 2) = 1999 \<and>
   amount_in_paise 10000 (- 2) = Inr 10000 \<and>
   spec_minor_units 10000 (- 2) = 10000"
  by (simp add: float_defs spec_minor_units_def)

section \<open>Encodings on examples\<close>

lemma json_dumps_example:
  "json_dumps (JObj [(''a'', JStr ''x'' ), (''b'', JInt (- 5)), (''c'', JNull),
                     (''e'', JList [JInt 1, JInt 2]), (''f'', JObj [])])
     = [CHR ''{'', CHR 0x22, CHR ''a'', CHR 0x22, CHR '':'', CHR 0x22, CHR ''x'', CHR 0x22]
       @ '','' @ [CHR 0x22, CHR ''b'', CHR 0x22] @ '':-5,''
       @ [CHR 0x22, CHR ''c'', CHR 0x22] @ '':null,''
       @ [CHR 0x22, CHR ''e'', CHR 0x22] @ '':[1,2],''
       @ [CHR 0x22, CHR ''f'', CHR 0x22] @ '':{}}''"
  by code_simp

lemma b64encode_examples:
  "b64encode ''a'' = ''YQ==''" "b64encode ''ab'' = ''YWI=''" "b64encode ''abc'' = ''YWJj''"
  by (simp_all add: b64_char_def b64_alphabet_def)

section \<open>Digests are lowercase hexadecimal text\<close>

lemma hex_digit_ascii: "n < 16 \<Longrightarrow> (of_char (hex_digit n) :: nat) < 128"
  by (simp add: hex_digit_def)

lemma hex_digit_table: "\<forall>n<16. lower_hex (hex_digit n)"
  by code_simp

lemma hex_digit_lower: "n < 16 \<Longrightarrow> lower_hex (hex_digit n)"
  using hex_digit_table by blast

lemma of_char_div_16: "(of_char b :: nat) div 16 < 16"
proof -
  have "(of_char b :: nat) < 256" by simp
  then show ?thesis by arith
qed

lemma is_ascii_hexdigest: "is_ascii (hexdigest_of bs)"
  by (induction bs)
     (simp_all add: is_ascii_def hexdigest_of_def hex_byte_def hex_digit_ascii of_char_div_16)

lemma lower_hex_hexdigest: "list_all lower_hex (hexdigest_of bs)"
  by (induction bs)
     (simp_all add: hexdigest_of_def hex_byte_def hex_digit_lower of_char_div_16)

section \<open>Splitting the header\<close>

lemma split_from_no_separator:
  "\<forall>i. take (length sep) (drop i rest) \<noteq> sep \<Longrightarrow> split_from sep cur rest = [cur @ rest]"
proof (induction sep cur rest rule: split_from.induct)
  case (1 sep cur rest)
  show ?case
  proof (cases rest)
    case Nil
    then show ?thesis by (simp add: split_from.simps)
  next
    case (Cons c cs)
    have here: "take (length sep) rest \<noteq> sep"
      using "1.prems" [rule_format, of 0] by simp
    have later: "\<forall>i. take (length sep) (drop i cs) \<noteq> sep"
    proof
      fix i
      show "take (length sep) (drop i cs) \<noteq> sep"
        using "1.prems" [rule_format, of "Suc i"] Cons by simp
    qed
    have "split_from sep (cur @ [c]) cs = [(cur @ [c]) @ cs]"
      using "1.IH"(2) [OF Cons _ later] here by blast
    then show ?thesis
      using Cons here by (subst split_from.simps) simp
  qed
qed

lemma str_split_no_separator:
  "\<forall>i. take (length sep) (drop i s) \<noteq> sep \<Longrightarrow> str_split s sep = [s]"
  using split_from_no_separator [of sep s "[]"] by (simp add: str_split_def)

lemma no_hash_no_separator:
  assumes "CHR ''#'' \<notin> set h"
  shows "\<forall>i. take 3 (drop i h) \<noteq> ''###''"
proof
  fix i
  show "take 3 (drop i h) \<noteq> ''###''"
  proof
    assume eq: "take 3 (drop i h) = ''###''"
    have "set (take 3 (drop i h)) \<subseteq> set h"
      by (meson set_take_subset set_drop_subset subset_trans)
    with eq have "CHR ''#'' \<in> set h" by auto
    with assms show False by simp
  qed
qed

section \<open>Verification of a webhook signature\<close>

lemma compare_digest_hexdigest:
  "compare_digest (hexdigest_of bs) r = Inr True \<longleftrightarrow> r = hexdigest_of bs"
  using is_ascii_hexdigest [of bs] by (auto simp: compare_digest_def)

lemma compare_digest_cases:
  "compare_digest a b = Inr True \<or> compare_digest a b = Inr False \<or> compare_digest a b = Inl TypeError"
  by (simp add: compare_digest_def)

lemma verify_header_absent: "\<not> verify_webhook_signature sha256 svc payload None"
  by (simp add: verify_webhook_signature_def verify_webhook_signature_try_def)

lemma verify_wrong_parts:
  "length (str_split h ''###'') \<noteq> 2 \<Longrightarrow> \<not> verify_webhook_signature sha256 svc payload (Some h)"
  by (simp add: verify_webhook_signature_def verify_webhook_signature_try_def)

lemma verify_two_parts:
  assumes "str_split h ''###'' = [received_hash, idx]"
  shows "verify_webhook_signature sha256 svc payload (Some h) \<longleftrightarrow>
           received_hash = hexdigest_of (sha256 (encode_utf8 (payload @ salt_key svc)))"
proof -
  let ?calc = "hexdigest_of (sha256 (encode_utf8 (payload @ salt_key svc)))"
  have t: "verify_webhook_signature_try sha256 svc payload (Some h)
             = compare_digest ?calc received_hash"
    using assms by (simp add: verify_webhook_signature_try_def Let_def)
  have "verify_webhook_signature sha256 svc payload (Some h)
          \<longleftrightarrow> compare_digest ?calc received_hash = Inr True"
    using compare_digest_cases [of ?calc received_hash]
    by (auto simp: verify_webhook_signature_def t)
  then show ?thesis
    by (simp add: compare_digest_hexdigest)
qed


text \<open>
  C5. \<open>verify_webhook_signature\<close> returns true exactly when the header splits on
  \<open>###\<close> into two parts and the first part is the hexadecimal digest of the payload
  followed by the salt key. So it returns false when the split does not give exactly two
  parts, in particular when the separator does not occur in the header, and it rejects
  a tampered payload (one whose digest is no longer the hash in the header) although the
  header is well formed.
\<close>

theorem verify_webhook_signature_iff:
  "(verify_webhook_signature sha256 svc payload hdr \<longleftrightarrow>
      (\<exists>h received_hash idx. hdr = Some h \<and>
         str_split h ''###'' = [received_hash, idx] \<and>
         received_hash = hexdigest_of (sha256 (encode_utf8 (payload @ salt_key svc))))) \<and>
   (length (str_split h ''###'') \<noteq> 2 \<longrightarrow>
      \<not> verify_webhook_signature sha256 svc payload (Some h)) \<and>
   ((\<forall>i. take 3 (drop i h) \<noteq> ''###'') \<longrightarrow>
      \<not> verify_webhook_signature sha256 svc payload (Some h)) \<and>
   (str_split h ''###'' = [hexdigest_of (sha256 (encode_utf8 (original @ salt_key svc))), idx] \<and>
    hexdigest_of (sha256 (encode_utf8 (tampered @ salt_key svc)))
      \<noteq> hexdigest_of (sha256 (encode_utf8 (original @ salt_key svc))) \<longrightarrow>
      \<not> verify_webhook_signature sha256 svc tampered (Some h))"
proof (intro conjI impI)
  show "verify_webhook_signature sha256 svc payload hdr \<longleftrightarrow>
      (\<exists>h received_hash idx. hdr = Some h \<and>
         str_split h ''###'' = [received_hash, idx] \<and>
         received_hash = hexdigest_of (sha256 (encode_utf8 (payload @ salt_key svc))))"
  proof (cases hdr)
    case None
    then show ?thesis by (simp add: verify_header_absent)
  next
    case (Some h)
    show ?thesis
    proof (cases "length (str_split h ''###'') = 2")
      case True
      then obtain r i where parts: "str_split h ''###'' = [r, i]"
        by (cases "str_split h ''###''"; cases "tl (str_split h ''###'')") auto
      show ?thesis
        using verify_two_parts [OF parts, of sha256 svc payload] Some parts by auto
    next
      case False
      then show ?thesis
        using verify_wrong_parts [of h sha256 svc payload] Some by auto
    qed
  qed
next
  assume "length (str_split h ''###'') \<noteq> 2"
  then show "\<not> verify_webhook_signature sha256 svc payload (Some h)"
    by (rule verify_wrong_parts)
next
  assume "\<forall>i. take 3 (drop i h) \<noteq> ''###''"
  then have "str_split h ''###'' = [h]"
    using str_split_no_separator [of "''###''" h] by (simp add: numeral_3_eq_3)
  then show "\<not> verify_webhook_signature sha256 svc payload (Some h)"
    using verify_wrong_parts [of h sha256 svc payload] by simp
next
  assume a: "str_split h ''###''
               = [hexdigest_of (sha256 (encode_utf8 (original @ salt_key svc))), idx] \<and>
             hexdigest_of (sha256 (encode_utf8 (tampered @ salt_key svc)))
               \<noteq> hexdigest_of (sha256 (encode_utf8 (original @ salt_key svc)))"
  then show "\<not> verify_webhook_signature sha256 svc tampered (Some h)"
    using verify_two_parts [of h _ idx sha256 svc tampered] by auto
qed

lemma sample_digests:
  "hexdigest_of (sample_digest (encode_utf8 (''paid'' @ salt_key default_client))) = ''70616964''"
  "hexdigest_of (sample_digest (encode_utf8 (''void'' @ salt_key default_client))) = ''766f6964''"
  by (simp_all add: default_client_def init_def getattr_def) code_simp+

lemma sample_splits:
  "str_split ''70616964###1'' ''###'' = [''70616964'', ''1'']"
  "str_split ''70616964'' ''###'' = [''70616964'']"
  "str_split ''70616964###1###2'' ''###'' = [''70616964'', ''1'', ''2'']"
  by (simp_all add: str_split_def split_from.simps)

theorem verify_webhook_signature_iff_witness:
  "verify_webhook_signature sample_digest default_client ''paid'' (Some ''70616964###1'') \<and>
   length (str_split ''70616964###1###2'' ''###'') \<noteq> 2 \<and>
   \<not> verify_webhook_signature sample_digest default_client ''paid'' (Some ''70616964###1###2'') \<and>
   (\<forall>i. take 3 (drop i ''70616964'') \<noteq> ''###'') \<and>
   \<not> verify_webhook_signature sample_digest default_client ''paid'' (Some ''70616964'') \<and>
   str_split ''70616964###1'' ''###''
     = [hexdigest_of (sample_digest (encode_utf8 (''paid'' @ salt_key default_client))), ''1''] \<and>
   hexdigest_of (sample_digest (encode_utf8 (''void'' @ salt_key default_client)))
     \<noteq> hexdigest_of (sample_digest (encode_utf8 (''paid'' @ salt_key default_client))) \<and>
   \<not> verify_webhook_signature sample_digest default_client ''void'' (Some ''70616964###1'')"
proof -
  let ?paid = "hexdigest_of (sample_digest (encode_utf8 (''paid'' @ salt_key default_client)))"
  let ?void = "hexdigest_of (sample_digest (encode_utf8 (''void'' @ salt_key default_client)))"
  have paid: "?paid = ''70616964''" and void: "?void = ''766f6964''"
    by (rule sample_digests)+
  have differ: "?void \<noteq> ?paid"
    unfolding paid void by simp
  have two: "str_split ''70616964###1'' ''###'' = [?paid, ''1'']"
    unfolding paid by (rule sample_splits)
  have three: "length (str_split ''70616964###1###2'' ''###'') \<noteq> 2"
    unfolding sample_splits by simp
  have nosep: "\<forall>i. take 3 (drop i ''70616964'') \<noteq> ''###''"
    by (rule no_hash_no_separator) simp
  note main = verify_webhook_signature_iff
  have good: "verify_webhook_signature sample_digest default_client ''paid'' (Some ''70616964###1'')"
    using main [of sample_digest default_client "''paid''" "Some ''70616964###1''"] two by blast
  have r3: "\<not> verify_webhook_signature sample_digest default_client ''paid''
                (Some ''70616964###1###2'')"
    using main [of sample_digest default_client "''paid''" _ "''70616964###1###2''"] three by blast
  have r1: "\<not> verify_webhook_signature sample_digest default_client ''paid'' (Some ''70616964'')"
    using main [of sample_digest default_client "''paid''" _ "''70616964''"] nosep by blast
  have tamper: "\<not> verify_webhook_signature sample_digest default_client ''void''
                    (Some ''70616964###1'')"
    using main [of sample_digest default_client _ _ "''70616964###1''" "''paid''" "''1''" "''void''"]
          two differ
    by blast
  from good three r3 nosep r1 two differ tamper show ?thesis
    by blast
qed

section \<open>The request signature\<close>

lemma x_verify_regression:
  "generate_x_verify_header sample_digest default_client ''e30='' ''/pg/v1/pay'' = ''6533303d###1''"
  by (simp add: generate_x_verify_header_def default_client_def init_def getattr_def) code_simp

text \<open>
  C4. The signature of a payload for an endpoint is the lowercase hexadecimal SHA-256
  digest of the base64 text of the compact JSON payload, followed by the endpoint path
  and the salt key, then \<open>###\<close> and the salt index. It is a function of these inputs
  alone. The \<open>X-VERIFY\<close> header of a payment request is this signature for
  \<open>/pg/v1/pay\<close> over the very text sent as \<open>request\<close>, and that of a status
  request the one for \<open>/pg/v1/status\<close>.
\<close>

theorem x_verify_header_formula:
  "generate_x_verify_header sha256 svc (encode_base64 payload) endpoint
     = hexdigest_of (sha256 (encode_utf8
         (b64encode (encode_utf8 (json_dumps payload)) @ endpoint @ salt_key svc)))
       @ ''###'' @ salt_index svc \<and>
   list_all lower_hex (hexdigest_of (sha256 (encode_utf8
         (b64encode (encode_utf8 (json_dumps payload)) @ endpoint @ salt_key svc)))) \<and>
   map_of (headers (pay_request sha256 svc payload)) ''X-VERIFY''
     = Some (generate_x_verify_header sha256 svc (encode_base64 payload) ''/pg/v1/pay'') \<and>
   map_of (request_payload (pay_request sha256 svc payload)) ''request''
     = Some (encode_base64 payload) \<and>
   map_of (headers (status_request sha256 svc txn)) ''X-VERIFY''
     = Some (generate_x_verify_header sha256 svc
               (encode_base64 (status_payload svc txn)) ''/pg/v1/status'')"
  by (simp add: generate_x_verify_header_def encode_base64_def pay_request_def
                status_request_def lower_hex_hexdigest Let_def)

end
